theory Spec2Isabelle
  imports Complex_Main "HOL-Library.Multiset"
begin

section \<open>Data model\<close>

text \<open>
  The three tables of \<^verbatim>\<open>src/lib/schema.ts\<close> and the join view of
  \<^verbatim>\<open>src/types/index.ts\<close>. Serial and integer columns are \<open>int\<close>, the
  timestamp column is the number of milliseconds since the epoch, and the status text is
  the closed enumeration \<^verbatim>\<open>'Scheduled' | 'Completed'\<close>. The field \<^verbatim>\<open>id\<close> of
  each table is written \<open>t_id\<close>, \<open>p_id\<close>, \<open>s_id\<close>, and \<^verbatim>\<open>name\<close> is written
  \<open>t_name\<close>, \<open>p_name\<close>, since one theory cannot hold three fields called \<open>id\<close>.
\<close>

datatype status = Scheduled | Completed

record Therapist =
  t_id :: int
  t_name :: string
  specialty :: "string option"

record Patient =
  p_id :: int
  p_name :: string
  dob :: "string option"

record Session =
  s_id :: int
  therapist_id :: int
  patient_id :: int
  date :: int
  status :: status

text \<open>
  \<^verbatim>\<open>SessionWithDetails = Session & { therapist_name; patient_name }\<close>. The two names
  come from the joined tables, so each is absent (SQL \<^verbatim>\<open>NULL\<close>, JSON \<^verbatim>\<open>null\<close>) when
  the left join finds no partner.
\<close>

record SessionWithDetails = Session +
  therapist_name :: "string option"
  patient_name :: "string option"

record db =
  therapists :: "Therapist list"
  patients :: "Patient list"
  sessions :: "Session list"
  sessions_id_seq :: int

section \<open>JSON values and requests\<close>

text \<open>
  A parsed JSON value. Numbers are the finite doubles, which are rationals; an object is
  its list of members, read with \<open>map_of\<close>.
\<close>

datatype json =
    JNull
  | JBool bool
  | JNum rat
  | JStr string
  | JArr "json list"
  | JObj "(string \<times> json) list"

text \<open>
  \<^verbatim>\<open>await request.json()\<close> either throws (the text of the error is kept) or gives
  the parsed value.
\<close>

datatype request_body = Malformed string | Parsed json

text \<open>
  What the handlers take from their surroundings: the check behind
  \<^verbatim>\<open>z.string().datetime()\<close>, the constructor \<^verbatim>\<open>new Date(string)\<close> (\<open>None\<close> is
  an invalid date, which the insert cannot serialise) and whether
  \<^verbatim>\<open>process.env.NODE_ENV\<close> is \<^verbatim>\<open>'development'\<close>.
\<close>

record runtime =
  datetime :: "string \<Rightarrow> bool"
  Date :: "string \<Rightarrow> int option"
  development :: bool

section \<open>Responses\<close>

record detail =
  field :: string
  message :: string

datatype body =
    ErrorBody string
  | ValidationBody string "detail list"
  | FailureBody string string
  | SessionList "SessionWithDetails list"
  | SessionBody SessionWithDetails
  | NoChangeBody string int status
  | UpdatedBody string Session

record response =
  status_code :: nat
  payload :: body

section \<open>Reading the path parameter: \<^verbatim>\<open>parseInt\<close>\<close>

text \<open>
  \<^verbatim>\<open>parseInt(string)\<close> with no radix, as ECMAScript defines it: leading white space
  is dropped, one sign is read, a \<^verbatim>\<open>0x\<close> prefix switches to radix 16, the longest run
  of digits is read and whatever follows is ignored; no digit at all gives \<^verbatim>\<open>NaN\<close>,
  here \<open>None\<close>. A string is its list of code units below 256. The result is the exact
  integer: a double rounds it above \<open>2^53\<close>, which changes neither \<^verbatim>\<open>isNaN\<close> nor
  the comparison with 0, and a value that large lies outside every integer column
  either way.
\<close>

definition isWhiteSpace :: "char \<Rightarrow> bool" where
  "isWhiteSpace c = ((of_char c :: nat) \<in> {9, 10, 11, 12, 13, 32, 160})"

definition digitValue :: "nat \<Rightarrow> char \<Rightarrow> nat option" where
  "digitValue R c =
     (let n = (of_char c :: nat) in
      if 48 \<le> n \<and> n \<le> 57 then Some (n - 48)
      else if R = 16 \<and> 97 \<le> n \<and> n \<le> 102 then Some (n - 87)
      else if R = 16 \<and> 65 \<le> n \<and> n \<le> 70 then Some (n - 55)
      else None)"

fun readSign :: "string \<Rightarrow> int \<times> string" where
  "readSign [] = (1, [])"
| "readSign (c # cs) =
     (if c = CHR ''-'' then (- 1, cs) else if c = CHR ''+'' then (1, cs) else (1, c # cs))"

fun stripPrefix :: "string \<Rightarrow> nat \<times> string" where
  "stripPrefix (a # b # cs) =
     (if a = CHR ''0'' \<and> (b = CHR ''x'' \<or> b = CHR ''X'') then (16, cs) else (10, a # b # cs))"
| "stripPrefix cs = (10, cs)"

definition mathInt :: "nat \<Rightarrow> string \<Rightarrow> nat" where
  "mathInt R Z = foldl (\<lambda>a c. a * R + the (digitValue R c)) 0 Z"

definition parseInt :: "string \<Rightarrow> int option" where
  "parseInt inputString =
     (let S = dropWhile isWhiteSpace inputString;
          (sign, S1) = readSign S;
          (R, S2) = stripPrefix S1;
          Z = takeWhile (\<lambda>c. digitValue R c \<noteq> None) S2
      in if Z = [] then None else Some (sign * int (mathInt R Z)))"

section \<open>The validation layer\<close>

text \<open>
  The two schemas of the route files, checked by the validation library: an object
  schema reads every key of its shape (an absent key is \<^verbatim>\<open>undefined\<close>, here
  \<open>None\<close>), collects the issues of all of them and fails if there is any; a value that
  is no object gives one issue with the empty path. On a number the checks
  \<^verbatim>\<open>.int()\<close> and \<^verbatim>\<open>.positive()\<close> both run. The messages are the library's default
  English texts; no statement below depends on their wording.
\<close>

record issue =
  path :: "string list"
  issue_message :: string

datatype CreateSessionInput =
  CreateSessionInput (input_therapist_id: int) (input_patient_id: int) (input_date: string)

fun received :: "json \<Rightarrow> string" where
  "received JNull = ''null''"
| "received (JBool _) = ''boolean''"
| "received (JNum _) = ''number''"
| "received (JStr _) = ''string''"
| "received (JArr _) = ''array''"
| "received (JObj _) = ''object''"

definition isInteger :: "rat \<Rightarrow> bool" where
  "isInteger x = (of_int \<lfloor>x\<rfloor> = x)"

text \<open>\<^verbatim>\<open>z.number().int().positive()\<close>: the messages of the issues found.\<close>

fun number_int_positive :: "json option \<Rightarrow> string list" where
  "number_int_positive None = [''Required'']"
| "number_int_positive (Some (JNum x)) =
     (if isInteger x then [] else [''Expected integer, received float'']) @
     (if x \<le> 0 then [''Number must be greater than 0''] else [])"
| "number_int_positive (Some j) = [''Expected number, received '' @ received j]"

text \<open>\<^verbatim>\<open>z.string().datetime()\<close>.\<close>

fun string_datetime :: "runtime \<Rightarrow> json option \<Rightarrow> string list" where
  "string_datetime rt None = [''Required'']"
| "string_datetime rt (Some (JStr s)) = (if datetime rt s then [] else [''Invalid datetime''])"
| "string_datetime rt (Some j) = [''Expected string, received '' @ received j]"

text \<open>\<^verbatim>\<open>z.enum(['Scheduled', 'Completed'])\<close>: case-sensitive.\<close>

definition enum_status :: "string \<Rightarrow> status option" where
  "enum_status s =
     (if s = ''Scheduled'' then Some Scheduled
      else if s = ''Completed'' then Some Completed else None)"

fun status_enum :: "json option \<Rightarrow> string list" where
  "status_enum None = [''Required'']"
| "status_enum (Some (JStr s)) =
     (if enum_status s = None
      then [''Invalid enum value. Expected 'Scheduled' | 'Completed', received ''
            @ [CHR 0x27] @ s @ [CHR 0x27]]
      else [])"
| "status_enum (Some j) = [''Expected 'Scheduled' | 'Completed', received '' @ received j]"

definition at_key :: "string \<Rightarrow> string list \<Rightarrow> issue list" where
  "at_key k ms = map (\<lambda>m. \<lparr>path = [k], issue_message = m\<rparr>) ms"

definition not_an_object :: "json \<Rightarrow> issue list" where
  "not_an_object j = [\<lparr>path = [], issue_message = ''Expected object, received '' @ received j\<rparr>]"

definition number_of :: "json option \<Rightarrow> int" where
  "number_of v = (case v of Some (JNum x) \<Rightarrow> \<lfloor>x\<rfloor> | _ \<Rightarrow> 0)"

definition string_of :: "json option \<Rightarrow> string" where
  "string_of v = (case v of Some (JStr s) \<Rightarrow> s | _ \<Rightarrow> [])"

text \<open>\<^verbatim>\<open>createSessionSchema.parse(body)\<close>: \<open>Inl\<close> is the thrown \<^verbatim>\<open>ZodError\<close>.\<close>

definition createSessionSchema_issues :: "runtime \<Rightarrow> (string \<times> json) list \<Rightarrow> issue list" where
  "createSessionSchema_issues rt fs =
     at_key ''therapist_id'' (number_int_positive (map_of fs ''therapist_id'')) @
     at_key ''patient_id'' (number_int_positive (map_of fs ''patient_id'')) @
     at_key ''date'' (string_datetime rt (map_of fs ''date''))"

fun createSessionSchema_parse :: "runtime \<Rightarrow> json \<Rightarrow> issue list + CreateSessionInput" where
  "createSessionSchema_parse rt (JObj fs) =
     (if createSessionSchema_issues rt fs = []
      then Inr (CreateSessionInput (number_of (map_of fs ''therapist_id''))
                  (number_of (map_of fs ''patient_id'')) (string_of (map_of fs ''date'')))
      else Inl (createSessionSchema_issues rt fs))"
| "createSessionSchema_parse rt j = Inl (not_an_object j)"

text \<open>\<^verbatim>\<open>updateSessionSchema.parse(body)\<close>.\<close>

fun updateSessionSchema_parse :: "json \<Rightarrow> issue list + status" where
  "updateSessionSchema_parse (JObj fs) =
     (case map_of fs ''status'' of
        Some (JStr s) \<Rightarrow>
          (case enum_status s of
             Some st \<Rightarrow> Inr st
           | None \<Rightarrow> Inl (at_key ''status'' (status_enum (Some (JStr s)))))
      | v \<Rightarrow> Inl (at_key ''status'' (status_enum v)))"
| "updateSessionSchema_parse j = Inl (not_an_object j)"

text \<open>\<^verbatim>\<open>err.path.join('.')\<close> and the \<^verbatim>\<open>details\<close> array built from the issues.\<close>

fun join_dot :: "string list \<Rightarrow> string" where
  "join_dot [] = []"
| "join_dot [x] = x"
| "join_dot (x # y # r) = x @ ''.'' @ join_dot (y # r)"

definition details_of :: "issue list \<Rightarrow> detail list" where
  "details_of issues =
     map (\<lambda>err. \<lparr>field = join_dot (path err), message = issue_message err\<rparr>) issues"

section \<open>The persistence gateway\<close>

text \<open>
  The queries the handlers build, over the tables as lists of rows. A left join keeps a
  row of the left table that has no partner and fills the joined columns with
  \<^verbatim>\<open>NULL\<close>; \<^verbatim>\<open>ORDER BY date\<close> is an ascending sort by the timestamp (the order
  among equal timestamps is the database's choice; here it is the table order). The
  store is always reachable; a query throws only when the store refuses a value of the
  request.
\<close>

text \<open>
  The id columns are \<^verbatim>\<open>serial\<close> and \<^verbatim>\<open>integer\<close>, 32 bits wide. A column holds
  no value outside that range, so a parameter outside it matches no row, and the store
  refuses it: \<^verbatim>\<open>select ... where(eq(id, n)).limit(1)\<close> throws (\<open>Inl\<close>) instead of
  returning no row.
\<close>

definition int4 :: "int \<Rightarrow> bool" where
  "int4 n = (- 2147483648 \<le> n \<and> n \<le> 2147483647)"

definition select_where_id :: "('r \<Rightarrow> int) \<Rightarrow> int \<Rightarrow> 'r list \<Rightarrow> string + 'r list" where
  "select_where_id col n rows =
     (case take 1 (filter (\<lambda>r. col r = n) rows) of
        [] \<Rightarrow> if int4 n then Inr [] else Inl ''error: value is out of range for type integer''
      | found \<Rightarrow> Inr found)"

text \<open>
  The timestamp column takes the text of \<^verbatim>\<open>toISOString()\<close>, which the store reads
  for the years 0001 to 9999: it has no year 0000 and does not read the signed
  six-digit years that JavaScript writes outside 0000 to 9999.
\<close>

definition timestamp_accepted :: "int \<Rightarrow> bool" where
  "timestamp_accepted t = (- 62135596800000 \<le> t \<and> t \<le> 253402300799999)"

definition leftJoin :: "('a \<Rightarrow> 'b \<Rightarrow> bool) \<Rightarrow> 'a \<Rightarrow> 'b list \<Rightarrow> 'b option list" where
  "leftJoin on l rs =
     (if filter (on l) rs = [] then [None] else map Some (filter (on l) rs))"

definition with_details :: "Session \<Rightarrow> Therapist option \<Rightarrow> Patient option \<Rightarrow> SessionWithDetails" where
  "with_details s t p =
     Session.extend s
       (SessionWithDetails.fields (map_option t_name t) (map_option p_name p))"

text \<open>
  \<^verbatim>\<open>from(sessions).leftJoin(therapists, ...).leftJoin(patients, ...)\<close>: the rows one
  session contributes, and the whole result.
\<close>

definition joined_rows :: "db \<Rightarrow> Session \<Rightarrow> SessionWithDetails list" where
  "joined_rows d s =
     concat (map (\<lambda>t.
       map (\<lambda>p. with_details s t p)
         (leftJoin (\<lambda>s p. patient_id s = p_id p) s (patients d)))
       (leftJoin (\<lambda>s t. therapist_id s = t_id t) s (therapists d)))"

definition select_sessions_joined :: "db \<Rightarrow> SessionWithDetails list" where
  "select_sessions_joined d = concat (map (joined_rows d) (sessions d))"

definition orderBy_date :: "SessionWithDetails list \<Rightarrow> SessionWithDetails list" where
  "orderBy_date rows = sort_key date rows"

text \<open>
  \<^verbatim>\<open>db.insert(sessions).values(...).returning()\<close>: a timestamp the store cannot
  read is refused before anything else happens; otherwise the id is the next value of
  the sequence, which advances even when the primary key rejects the row. \<open>Inl\<close> is
  the error thrown, \<open>Inr\<close> the returned rows.
\<close>

definition insert_session ::
    "int \<Rightarrow> int \<Rightarrow> int \<Rightarrow> status \<Rightarrow> db \<Rightarrow> (string + Session list) \<times> db" where
  "insert_session tid pid t st d =
     (let row = \<lparr>s_id = sessions_id_seq d, therapist_id = tid, patient_id = pid,
                 date = t, status = st\<rparr>;
          d' = d\<lparr>sessions_id_seq := sessions_id_seq d + 1\<rparr>
      in if \<not> timestamp_accepted t
         then (Inl ''error: date/time field value out of range'', d)
         else if sessions_id_seq d \<in> set (map s_id (sessions d))
         then (Inl ''error: duplicate key value violates unique constraint'', d')
         else (Inr [row], d'\<lparr>sessions := sessions d @ [row]\<rparr>))"

text \<open>\<^verbatim>\<open>db.update(sessions).set({ status }).where(eq(sessions.id, sessionId)).returning()\<close>.\<close>

definition update_status :: "int \<Rightarrow> status \<Rightarrow> db \<Rightarrow> Session list \<times> db" where
  "update_status sessionId st d =
     (let rows = map (\<lambda>s. if s_id s = sessionId then s\<lparr>status := st\<rparr> else s) (sessions d)
      in (filter (\<lambda>s. s_id s = sessionId) rows, d\<lparr>sessions := rows\<rparr>))"

section \<open>The HTTP resource handlers\<close>

definition json_response :: "nat \<Rightarrow> body \<Rightarrow> response" where
  "json_response code b = \<lparr>status_code = code, payload = b\<rparr>"

text \<open>The catch-all branch: the error text leaves the server in development mode only.\<close>

definition failure :: "runtime \<Rightarrow> string \<Rightarrow> string \<Rightarrow> response" where
  "failure rt what thrown =
     json_response 500
       (FailureBody what (if development rt then thrown else ''Internal server error''))"

definition validation_failed :: "issue list \<Rightarrow> response" where
  "validation_failed issues =
     json_response 400 (ValidationBody ''Validation failed'' (details_of issues))"

text \<open>\<^verbatim>\<open>GET /api/sessions\<close> (\<^verbatim>\<open>src/app/api/sessions/route.ts\<close>).\<close>

definition listSessionsWithDetails :: "db \<Rightarrow> SessionWithDetails list" where
  "listSessionsWithDetails d = orderBy_date (select_sessions_joined d)"

definition GET :: "db \<Rightarrow> response" where
  "GET d = json_response 200 (SessionList (listSessionsWithDetails d))"

text \<open>\<^verbatim>\<open>POST /api/sessions\<close> (\<^verbatim>\<open>src/app/api/sessions/route.ts\<close>).\<close>

definition POST :: "runtime \<Rightarrow> request_body \<Rightarrow> db \<Rightarrow> response \<times> db" where
  "POST rt request d =
     (case request of
        Malformed thrown \<Rightarrow> (failure rt ''Failed to create session'' thrown, d)
      | Parsed body \<Rightarrow>
     (case createSessionSchema_parse rt body of
        Inl issues \<Rightarrow> (validation_failed issues, d)
      | Inr validated \<Rightarrow>
     (case (select_where_id t_id (input_therapist_id validated) (therapists d),
            select_where_id p_id (input_patient_id validated) (patients d)) of
        (Inl thrown, _) \<Rightarrow> (failure rt ''Failed to create session'' thrown, d)
      | (Inr _, Inl thrown) \<Rightarrow> (failure rt ''Failed to create session'' thrown, d)
      | (Inr therapistExists, Inr patientExists) \<Rightarrow>
         if length therapistExists = 0
         then (json_response 400 (ErrorBody ''Invalid therapist ID''), d)
         else if length patientExists = 0
         then (json_response 400 (ErrorBody ''Invalid patient ID''), d)
         else
     (case Date rt (input_date validated) of
        None \<Rightarrow> (failure rt ''Failed to create session'' ''RangeError: Invalid time value'', d)
      | Some t \<Rightarrow>
     (case insert_session (input_therapist_id validated) (input_patient_id validated) t
             Scheduled d of
        (Inl thrown, d') \<Rightarrow> (failure rt ''Failed to create session'' thrown, d')
      | (Inr [], d') \<Rightarrow>
          (json_response 500 (ErrorBody ''Failed to create session - no session returned''), d')
      | (Inr (newSession # _), d') \<Rightarrow>
     (case take 1 (filter (\<lambda>r. s_id r = s_id newSession) (select_sessions_joined d')) of
        [] \<Rightarrow>
          (failure rt ''Failed to create session''
             ''TypeError: Value is not JSON serializable'', d')
      | completeSession # _ \<Rightarrow> (json_response 201 (SessionBody completeSession), d')))))))"

text \<open>
  \<^verbatim>\<open>PATCH /api/sessions/[id]\<close> (\<^verbatim>\<open>src/app/api/sessions/[id]/route.ts\<close>). The path
  parameter is read first; the body is awaited only after the id has passed.
\<close>

definition PATCH :: "runtime \<Rightarrow> string \<Rightarrow> request_body \<Rightarrow> db \<Rightarrow> response \<times> db" where
  "PATCH rt id_param request d =
     (case parseInt id_param of
        None \<Rightarrow> (json_response 400 (ErrorBody ''Invalid session ID format''), d)
      | Some sessionId \<Rightarrow>
     (if sessionId \<le> 0
      then (json_response 400 (ErrorBody ''Invalid session ID format''), d)
      else
     (case request of
        Malformed thrown \<Rightarrow> (failure rt ''Failed to update session'' thrown, d)
      | Parsed body \<Rightarrow>
     (case updateSessionSchema_parse body of
        Inl issues \<Rightarrow> (validation_failed issues, d)
      | Inr validated \<Rightarrow>
     (case select_where_id s_id sessionId (sessions d) of
        Inl thrown \<Rightarrow> (failure rt ''Failed to update session'' thrown, d)
      | Inr [] \<Rightarrow> (json_response 404 (ErrorBody ''Session not found''), d)
      | Inr (existing # _) \<Rightarrow>
          if status existing = validated
          then (json_response 200
                  (NoChangeBody ''Session already has the requested status''
                     (s_id existing) (status existing)), d)
          else
     (case update_status sessionId validated d of
        ([], d') \<Rightarrow> (json_response 404 (ErrorBody ''Session not found''), d')
      | (updatedSession # _, d') \<Rightarrow>
          (json_response 200
             (UpdatedBody ''Session updated successfully'' updatedSession), d')))))))"

section \<open>The client: fetching\<close>

text \<open>
  A call of \<^verbatim>\<open>fetch\<close> either rejects or resolves to a response, whose
  \<^verbatim>\<open>json()\<close> in turn rejects (\<open>Inl\<close>, with the message of the error) or gives the
  parsed body. \<open>content_type\<close> is \<open>None\<close> when the response has no usable
  \<^verbatim>\<open>headers\<close>, \<open>Some None\<close> when the header is absent.
\<close>

datatype rejection = FailedToFetch | OtherError string | NotAnError

record 'a fetch_response =
  ok :: bool
  content_type :: "string option option"
  data :: "string + 'a"

datatype 'a fetch_outcome = Rejected rejection | Resolved "'a fetch_response"

text \<open>
  The body of the list response as \<^verbatim>\<open>fetchSessions\<close> sees it: an array, whose
  elements it takes for session rows without looking at them, or anything else.
\<close>

datatype response_data =
    DataArray "SessionWithDetails list"
  | DataNull
  | DataObject "(string \<times> json) list"
  | DataString string
  | DataNumber rat
  | DataBool bool

fun js_includes :: "string \<Rightarrow> string \<Rightarrow> bool" where
  "js_includes [] sub = (sub = [])"
| "js_includes (c # cs) sub = (take (length sub) (c # cs) = sub \<or> js_includes cs sub)"

datatype api_failure =
    NetworkError
  | Rethrown rejection
  | UnexpectedResponseType string
  | JsonRejected string
  | HttpError

text \<open>
  \<^verbatim>\<open>apiCall\<close> of \<^verbatim>\<open>src/lib/utils.ts\<close>: \<open>Inl\<close> is a throw, \<open>Inr\<close> the returned
  data. \<open>test_env\<close> says that \<^verbatim>\<open>NODE_ENV\<close> is \<^verbatim>\<open>'test'\<close>. The text of the error
  built from a non-success body is only logged by the caller and is left out.
\<close>

definition apiCall :: "bool \<Rightarrow> json fetch_outcome \<Rightarrow> api_failure + json" where
  "apiCall test_env outcome =
     (case outcome of
        Rejected FailedToFetch \<Rightarrow> Inl NetworkError
      | Rejected r \<Rightarrow> Inl (Rethrown r)
      | Resolved res \<Rightarrow>
          (let contentType =
                 (case content_type res of None \<Rightarrow> Some ''application/json'' | Some h \<Rightarrow> h)
           in case contentType of
                Some ct \<Rightarrow>
                  if \<not> test_env \<and> ct \<noteq> [] \<and> \<not> js_includes ct ''application/json''
                  then Inl (UnexpectedResponseType ct)
                  else (case data res of
                          Inl thrown \<Rightarrow> Inl (JsonRejected thrown)
                        | Inr d \<Rightarrow> if \<not> ok res then Inl HttpError else Inr d)
              | None \<Rightarrow>
                  (case data res of
                     Inl thrown \<Rightarrow> Inl (JsonRejected thrown)
                   | Inr d \<Rightarrow> if \<not> ok res then Inl HttpError else Inr d)))"

section \<open>The client: the dashboard and the session table\<close>

text \<open>
  The state of \<^verbatim>\<open>Home\<close> (\<^verbatim>\<open>src/app/page.tsx\<close>; its \<^verbatim>\<open>sessions\<close> is written
  \<open>home_sessions\<close>) together with the one piece of state of \<^verbatim>\<open>SessionTable\<close>,
  \<open>updatingSessionId\<close>. The timers that clear the two messages after three seconds
  are not part of the model.
\<close>

record client =
  home_sessions :: "SessionWithDetails list"
  loading :: bool
  error :: "string option"
  successMessage :: "string option"
  updatingSessionId :: "int option"

text \<open>\<^verbatim>\<open>fetchSessions\<close>, up to the \<^verbatim>\<open>await\<close> and from the settled fetch on.\<close>

definition fetchSessions_begin :: "client \<Rightarrow> client" where
  "fetchSessions_begin c = c\<lparr>loading := True, error := None\<rparr>"

definition fetchSessions_settle :: "response_data fetch_outcome \<Rightarrow> client \<Rightarrow> client" where
  "fetchSessions_settle outcome c =
     (case outcome of
        Rejected (OtherError m) \<Rightarrow> c\<lparr>error := Some m\<rparr>
      | Rejected FailedToFetch \<Rightarrow> c\<lparr>error := Some ''Failed to fetch''\<rparr>
      | Rejected NotAnError \<Rightarrow> c\<lparr>error := Some ''An error occurred''\<rparr>
      | Resolved response \<Rightarrow>
          if \<not> ok response then c\<lparr>error := Some ''Failed to fetch sessions''\<rparr>
          else (case data response of
                  Inl thrown \<Rightarrow> c\<lparr>error := Some thrown\<rparr>
                | Inr d \<Rightarrow>
                    (case d of
                       DataArray rows \<Rightarrow> c\<lparr>home_sessions := rows\<rparr>
                     | _ \<Rightarrow> c\<lparr>error := Some ''Invalid response format''\<rparr>)))
     \<lparr>loading := False\<rparr>"

text \<open>What \<^verbatim>\<open>Home\<close> returns: the error panel as soon as \<^verbatim>\<open>error\<close> is truthy.\<close>

datatype view = ErrorPanel string | Dashboard "SessionWithDetails list"

definition render :: "client \<Rightarrow> view" where
  "render c =
     (case error c of
        Some m \<Rightarrow> if m \<noteq> [] then ErrorPanel m else Dashboard (home_sessions c)
      | None \<Rightarrow> Dashboard (home_sessions c))"

text \<open>\<^verbatim>\<open>handleSessionUpdate\<close> and \<^verbatim>\<open>handleSessionUpdateError\<close> of \<^verbatim>\<open>Home\<close>.\<close>

definition handleSessionUpdate :: "int \<Rightarrow> client \<Rightarrow> client" where
  "handleSessionUpdate sessionId c =
     c\<lparr>home_sessions :=
          map (\<lambda>session. if s_id session = sessionId then session\<lparr>status := Completed\<rparr>
                          else session) (home_sessions c),
        successMessage := Some ''Session marked as completed''\<rparr>"

definition handleSessionUpdateError :: "int \<Rightarrow> status \<Rightarrow> client \<Rightarrow> client" where
  "handleSessionUpdateError sessionId originalStatus c =
     c\<lparr>home_sessions :=
          map (\<lambda>session. if s_id session = sessionId then session\<lparr>status := originalStatus\<rparr>
                          else session) (home_sessions c),
        error := Some ''Failed to update session. Please try again.''\<rparr>"

text \<open>
  \<^verbatim>\<open>handleMarkCompleted\<close> of \<^verbatim>\<open>SessionTable\<close>, again in two halves. The first takes
  the \<^verbatim>\<open>sessions\<close> prop of the render in which the button was clicked and returns the
  captured \<^verbatim>\<open>originalStatus\<close> (\<open>None\<close> when \<^verbatim>\<open>find\<close> gives \<^verbatim>\<open>undefined\<close>); the
  second runs when \<^verbatim>\<open>apiCall\<close> has settled, with the state of that moment.
\<close>

definition handleMarkCompleted_begin ::
    "SessionWithDetails list \<Rightarrow> int \<Rightarrow> client \<Rightarrow> status option \<times> client" where
  "handleMarkCompleted_begin props_sessions sessionId c =
     (let session = find (\<lambda>s. s_id s = sessionId) props_sessions;
          originalStatus = map_option status session
      in (originalStatus, handleSessionUpdate sessionId (c\<lparr>updatingSessionId := Some sessionId\<rparr>)))"

definition handleMarkCompleted_settle ::
    "int \<Rightarrow> status option \<Rightarrow> api_failure + json \<Rightarrow> client \<Rightarrow> client" where
  "handleMarkCompleted_settle sessionId originalStatus result c =
     (case result of
        Inr _ \<Rightarrow> c
      | Inl _ \<Rightarrow>
          (case originalStatus of
             Some st \<Rightarrow> handleSessionUpdateError sessionId st c
           | None \<Rightarrow> c))
     \<lparr>updatingSessionId := None\<rparr>"








section \<open>Stores and requests used as examples\<close>

text \<open>
  The example data of \<^verbatim>\<open>database/db_schema_reference.sql\<close>, its timestamps read as
  UTC; the sequence stands after the five inserted rows.
\<close>

definition seed_db :: db where
  "seed_db =
     \<lparr>therapists =
        [\<lparr>t_id = 1, t_name = ''Anna SLP'', specialty = Some ''Speech Therapy''\<rparr>,
         \<lparr>t_id = 2, t_name = ''Becca OT'', specialty = Some ''Occupational Therapy''\<rparr>,
         \<lparr>t_id = 3, t_name = ''Carlos PT'', specialty = Some ''Physical Therapy''\<rparr>],
      patients =
        [\<lparr>p_id = 1, p_name = ''Ariel Underwood'', dob = Some ''2018-06-15''\<rparr>,
         \<lparr>p_id = 2, p_name = ''Nemo Fisher'', dob = Some ''2017-03-02''\<rparr>,
         \<lparr>p_id = 3, p_name = ''Moana Lee'', dob = Some ''2016-12-25''\<rparr>,
         \<lparr>p_id = 4, p_name = ''Elsa Frost'', dob = Some ''2019-09-10''\<rparr>],
      sessions =
        [\<lparr>s_id = 1, therapist_id = 1, patient_id = 1, date = 1762592400000, status = Scheduled\<rparr>,
         \<lparr>s_id = 2, therapist_id = 1, patient_id = 2, date = 1762597800000, status = Scheduled\<rparr>,
         \<lparr>s_id = 3, therapist_id = 1, patient_id = 3, date = 1762606800000, status = Completed\<rparr>,
         \<lparr>s_id = 4, therapist_id = 2, patient_id = 4, date = 1762686000000, status = Scheduled\<rparr>,
         \<lparr>s_id = 5, therapist_id = 3, patient_id = 2, date = 1762702200000, status = Scheduled\<rparr>],
      sessions_id_seq = 6\<rparr>"

text \<open>
  The three sessions of the ordering example, inserted in the order 09:00, 11:00 of the
  next day, 13:00.
\<close>

definition ordering_db :: db where
  "ordering_db =
     seed_db\<lparr>sessions :=
        [\<lparr>s_id = 1, therapist_id = 1, patient_id = 1, date = 1762592400000, status = Scheduled\<rparr>,
         \<lparr>s_id = 2, therapist_id = 2, patient_id = 4, date = 1762686000000, status = Scheduled\<rparr>,
         \<lparr>s_id = 3, therapist_id = 1, patient_id = 3, date = 1762606800000, status = Completed\<rparr>],
      sessions_id_seq := 4\<rparr>"


text \<open>
  The seed store with one more session, of another therapist, at the time of session 1.
\<close>

definition same_time_db :: db where
  "same_time_db =
     seed_db\<lparr>sessions := sessions seed_db @
        [\<lparr>s_id = 6, therapist_id = 2, patient_id = 3, date = 1762592400000, status = Scheduled\<rparr>],
      sessions_id_seq := 7\<rparr>"

text \<open>
  A runtime that accepts the timestamp \<^verbatim>\<open>2030-01-01T10:00:00Z\<close> of the creation
  scenario and no other string.
\<close>

definition scenario_runtime :: runtime where
  "scenario_runtime =
     \<lparr>datetime = (\<lambda>s. s = ''2030-01-01T10:00:00Z''),
      Date = (\<lambda>s. if s = ''2030-01-01T10:00:00Z'' then Some 1893492000000 else None),
      development = False\<rparr>"

text \<open>
  A runtime for the timestamp \<^verbatim>\<open>0000-01-01T00:00:00Z\<close>, which the datetime check
  accepts and \<^verbatim>\<open>new Date\<close> reads as the first instant of the year 0.
\<close>

definition year_zero_runtime :: runtime where
  "year_zero_runtime =
     \<lparr>datetime = (\<lambda>s. s = ''0000-01-01T00:00:00Z''),
      Date = (\<lambda>s. if s = ''0000-01-01T00:00:00Z'' then Some (- 62167219200000) else None),
      development = False\<rparr>"

definition mark_completed_request :: request_body where
  "mark_completed_request = Parsed (JObj [(''status'', JStr ''Completed'')])"

text \<open>The dashboard after it has loaded the seed store.\<close>

definition seed_client :: client where
  "seed_client =
     \<lparr>home_sessions = listSessionsWithDetails seed_db, loading = False, error = None,
      successMessage = None, updatingSessionId = None\<rparr>"


section \<open>The stated input contract\<close>

text \<open>
  The contract of a create request as the specification words it, to compare the
  validator with: \<^verbatim>\<open>therapist_id\<close> and \<^verbatim>\<open>patient_id\<close> must each be a positive
  integer, \<^verbatim>\<open>date\<close> a syntactically valid timestamp. A field fails when it is absent
  or breaks its rule.
\<close>

definition positive_integer :: "json option \<Rightarrow> bool" where
  "positive_integer v = (case v of Some (JNum x) \<Rightarrow> isInteger x \<and> 0 < x | _ \<Rightarrow> False)"

definition valid_timestamp :: "runtime \<Rightarrow> json option \<Rightarrow> bool" where
  "valid_timestamp rt v = (case v of Some (JStr s) \<Rightarrow> datetime rt s | _ \<Rightarrow> False)"

text \<open>
  The number of rules a field breaks: an absent or wrongly typed field breaks one, a
  number can break two (integer, positive).
\<close>

definition violated_rules :: "runtime \<Rightarrow> (string \<times> json) list \<Rightarrow> string \<Rightarrow> nat" where
  "violated_rules rt fs k =
     (if k = ''therapist_id'' \<or> k = ''patient_id''
      then (case map_of fs k of
              Some (JNum x) \<Rightarrow> (if isInteger x then 0 else 1) + (if 0 < x then 0 else 1)
            | _ \<Rightarrow> 1)
      else if k = ''date'' then (if valid_timestamp rt (map_of fs k) then 0 else 1)
      else 0)"

definition failing_fields :: "runtime \<Rightarrow> (string \<times> json) list \<Rightarrow> string list" where
  "failing_fields rt fs =
     (if positive_integer (map_of fs ''therapist_id'') then [] else [''therapist_id'']) @
     (if positive_integer (map_of fs ''patient_id'') then [] else [''patient_id'']) @
     (if valid_timestamp rt (map_of fs ''date'') then [] else [''date''])"

text \<open>
  A failed status update as the specification words it: a network error (the fetch
  rejects), a non-success HTTP status, or a malformed response (its body is no JSON).
\<close>

definition failed :: "json fetch_outcome \<Rightarrow> bool" where
  "failed outcome =
     (case outcome of Rejected _ \<Rightarrow> True | Resolved res \<Rightarrow> \<not> ok res \<or> isl (data res))"

section \<open>Facts about the gateway and the validator\<close>

lemmas parseInt_eval = parseInt_def isWhiteSpace_def digitValue_def mathInt_def

lemma filter_unique_id:
  "distinct (map s_id xs) \<Longrightarrow> s \<in> set xs \<Longrightarrow> filter (\<lambda>r. s_id r = s_id s) xs = [s]"
proof (induction xs)
  case Nil
  then show ?case by simp
next
  case (Cons x xs)
  show ?case
  proof (cases "x = s")
    case True
    have "filter (\<lambda>r. s_id r = s_id s) xs = []"
      using Cons.prems(1) True by (auto simp: filter_empty_conv image_iff)
    with True show ?thesis by simp
  next
    case False
    with Cons.prems have "s \<in> set xs" by simp
    moreover from Cons.prems(1) this have "s_id x \<noteq> s_id s" by auto
    ultimately show ?thesis using Cons by simp
  qed
qed

lemma number_issues_iff: "number_int_positive v = [] \<longleftrightarrow> positive_integer v"
  by (cases v rule: number_int_positive.cases) (auto simp: positive_integer_def)

lemma datetime_issues_iff: "string_datetime rt v = [] \<longleftrightarrow> valid_timestamp rt v"
  by (cases "(rt, v)" rule: string_datetime.cases) (auto simp: valid_timestamp_def)

lemma fields_at_key: "map field (details_of (at_key k ms)) = replicate (length ms) k"
  by (induction ms) (simp_all add: details_of_def at_key_def)

lemma details_of_append: "details_of (xs @ ys) = details_of xs @ details_of ys"
  by (simp add: details_of_def)

lemma remdups_adj_block:
  "k \<notin> set ys \<Longrightarrow>
   remdups_adj (replicate n k @ ys) = (if n = 0 then remdups_adj ys else k # remdups_adj ys)"
proof (induction n)
  case 0
  then show ?case by simp
next
  case (Suc n)
  show ?case
  proof (cases n)
    case 0
    with Suc.prems show ?thesis by (cases ys) auto
  next
    case (Suc m)
    with Suc.IH Suc.prems show ?thesis by simp
  qed
qed

lemma fields_of_issues:
  "remdups_adj (map field (details_of (createSessionSchema_issues rt fs))) = failing_fields rt fs"
proof -
  let ?a = "length (number_int_positive (map_of fs ''therapist_id''))"
  let ?b = "length (number_int_positive (map_of fs ''patient_id''))"
  let ?c = "length (string_datetime rt (map_of fs ''date''))"
  have 3: "remdups_adj (replicate ?c ''date'' @ []) = (if ?c = 0 then [] else [''date''])"
    by (subst remdups_adj_block) simp_all
  have 2: "remdups_adj (replicate ?b ''patient_id'' @ replicate ?c ''date'')
      = (if ?b = 0 then [] else [''patient_id'']) @ (if ?c = 0 then [] else [''date''])"
    using 3 by (subst remdups_adj_block) simp_all
  have 1: "remdups_adj
       (replicate ?a ''therapist_id'' @ replicate ?b ''patient_id'' @ replicate ?c ''date'')
      = (if ?a = 0 then [] else [''therapist_id'']) @ (if ?b = 0 then [] else [''patient_id''])
        @ (if ?c = 0 then [] else [''date''])"
    using 2 by (subst remdups_adj_block) simp_all
  show ?thesis
    using 1
    by (simp add: createSessionSchema_issues_def details_of_append fields_at_key
        failing_fields_def flip: number_issues_iff datetime_issues_iff)
qed

lemma parse_ok:
  assumes "failing_fields rt fs = []"
  shows "createSessionSchema_parse rt (JObj fs) =
     Inr (CreateSessionInput (number_of (map_of fs ''therapist_id''))
            (number_of (map_of fs ''patient_id'')) (string_of (map_of fs ''date'')))"
  using assms
  by (auto simp: failing_fields_def createSessionSchema_issues_def at_key_def
      number_issues_iff datetime_issues_iff split: if_splits)

lemma s_id_with_details [simp]: "s_id (with_details s t p) = s_id s"
  by (simp add: with_details_def Session.defs)

lemma status_with_details [simp]: "status (with_details s t p) = status s"
  by (simp add: with_details_def Session.defs)

lemma date_with_details [simp]: "date (with_details s t p) = date s"
  by (simp add: with_details_def Session.defs)

lemma truncate_with_details [simp]: "Session.truncate (with_details s t p) = s"
  by (simp add: with_details_def Session.defs)

lemma therapist_name_with_details [simp]:
  "therapist_name (with_details s t p) = map_option t_name t"
  by (simp add: with_details_def Session.defs SessionWithDetails.defs)

lemma patient_name_with_details [simp]:
  "patient_name (with_details s t p) = map_option p_name p"
  by (simp add: with_details_def Session.defs SessionWithDetails.defs)

lemma joined_rows_sid: "r \<in> set (joined_rows d s) \<Longrightarrow> s_id r = s_id s"
  by (auto simp: joined_rows_def)



lemma mset_concat_map_cong:
  assumes "mset xs = mset ys"
  shows "mset (concat (map f xs)) = mset (concat (map f ys))"
proof -
  have "mset (concat (map f zs)) = sum_mset (image_mset (\<lambda>z. mset (f z)) (mset zs))" for zs
    by (induction zs) simp_all
  with assms show ?thesis by simp
qed

lemma map_key_sort_key: "map k (sort_key k xs) = sort (map k xs)"
  by (rule properties_for_sort [symmetric]) simp_all

lemma sort_key_keys_cong:
  assumes "mset xs = mset ys"
  shows "map k (sort_key k xs) = map k (sort_key k ys)"
proof -
  have "mset (map k xs) = mset (map k ys)"
    using assms by (metis mset_map)
  then have "sort (map k xs) = sort (map k ys)"
    by (intro properties_for_sort) simp_all
  then show ?thesis by (simp add: map_key_sort_key)
qed

lemma joined_rows_cong:
  "therapists d' = therapists d \<Longrightarrow> patients d' = patients d \<Longrightarrow> joined_rows d' = joined_rows d"
  by (rule ext) (simp add: joined_rows_def)

lemmas list_eval = listSessionsWithDetails_def orderBy_date_def select_sessions_joined_def
  joined_rows_def leftJoin_def with_details_def Session.defs SessionWithDetails.defs

text \<open>Facts about the client's two maps over the session list.\<close>

lemma failed_apiCall: "failed outcome \<Longrightarrow> isl (apiCall test_env outcome)"
  by (auto simp: failed_def apiCall_def Let_def
      split: fetch_outcome.splits rejection.splits option.splits sum.splits)

lemma revert_complete:
  "map (\<lambda>session. if s_id session = sid then session\<lparr>status := st\<rparr> else session)
     (map (\<lambda>session. if s_id session = sid then session\<lparr>status := Completed\<rparr> else session) xs)
   = map (\<lambda>session. if s_id session = sid then session\<lparr>status := st\<rparr> else session) xs"
  by (induction xs) simp_all

lemma revert_same:
  "\<forall>r \<in> set xs. s_id r = sid \<longrightarrow> status r = st \<Longrightarrow>
   map (\<lambda>session. if s_id session = sid then session\<lparr>status := st\<rparr> else session) xs = xs"
  by (induction xs) simp_all

lemma reverted_one:
  "s_id (if s_id session = sid then session\<lparr>status := st\<rparr> else session) = sid \<Longrightarrow>
   status (if s_id session = sid then session\<lparr>status := st\<rparr> else session) = st"
  for session :: SessionWithDetails
  by (cases "s_id session = sid") simp_all

lemma reverted_status:
  "\<forall>r \<in> set (map (\<lambda>session. if s_id session = sid then session\<lparr>status := st\<rparr>
                             else session) xs).
     s_id r = sid \<longrightarrow> status r = st"
  for xs :: "SessionWithDetails list"
  unfolding set_map ball_simps using reverted_one by blast


lemma length_number_issues:
  "length (number_int_positive v) =
     (case v of
        Some (JNum x) \<Rightarrow> (if isInteger x then 0 else 1) + (if 0 < x then 0 else 1)
      | _ \<Rightarrow> 1)"
  by (cases v rule: number_int_positive.cases) auto

lemma length_datetime_issues:
  "length (string_datetime rt v) = (if valid_timestamp rt v then 0 else 1)"
  by (cases "(rt, v)" rule: string_datetime.cases) (auto simp: valid_timestamp_def)

lemma entries_at_key:
  "length (filter (\<lambda>e. field e = k) (details_of (at_key k' ms))) =
     (if k = k' then length ms else 0)"
  by (induction ms) (simp_all add: details_of_def at_key_def)

lemma entries_per_field:
  "\<forall>k. length (filter (\<lambda>e. field e = k) (details_of (createSessionSchema_issues rt fs))) =
     violated_rules rt fs k"
  by (simp add: createSessionSchema_issues_def details_of_append entries_at_key
      violated_rules_def length_number_issues length_datetime_issues)

lemma select_where_id_cases:
  assumes "int4 n"
  shows "select_where_id col n rows = Inr (take 1 (filter (\<lambda>r. col r = n) rows))"
  using assms by (simp add: select_where_id_def split: list.splits)

lemma take1_filter_empty:
  "take 1 (filter (\<lambda>r. col r = n) rows) = [] \<longleftrightarrow> n \<notin> col ` set rows"
  by (cases "filter (\<lambda>r. col r = n) rows") (auto simp: filter_empty_conv filter_eq_Cons_iff)

lemma POST_checked:
  assumes "createSessionSchema_parse rt body = Inr validated"
    and "select_where_id t_id (input_therapist_id validated) (therapists d) = Inr ts"
    and "select_where_id p_id (input_patient_id validated) (patients d) = Inr ps"
    and "ts = [] \<or> ps = []"
  shows "POST rt (Parsed body) d =
           (json_response 400
              (ErrorBody (if ts = [] then ''Invalid therapist ID'' else ''Invalid patient ID'')), d)"
  using assms(4) by (auto simp: POST_def assms(1,2,3))

lemma integer_example: "isInteger 1"
  by (simp add: isInteger_def)

lemma not_integer_example: "\<not> isInteger (- 3 / 2)"
proof -
  have "\<lfloor>- 3 / 2 :: rat\<rfloor> = - 2"
    by (rule floor_unique) simp_all
  then show ?thesis by (simp add: isInteger_def)
qed

section \<open>Updating the status of a session\<close>

text \<open>
  C3. For a session of the store (whose ids are distinct, \<open>s_id\<close> being the primary
  key) with status \<open>X\<close>, a \<^verbatim>\<open>PATCH\<close> for its id that asks for the same status \<open>X\<close>
  answers 200 with the message that the session already has the requested status and
  leaves the store as it was; a second, identical request gives the same answer and the
  same store as the first.
\<close>

theorem PATCH_same_status_is_noop:
  assumes "s \<in> set (sessions d)" and "distinct (map s_id (sessions d))"
    and "0 < s_id s" and "parseInt id_param = Some (s_id s)"
    and "map_of fs ''status'' = Some (JStr x)" and "enum_status x = Some (status s)"
  shows "PATCH rt id_param (Parsed (JObj fs)) d =
           (json_response 200
              (NoChangeBody ''Session already has the requested status'' (s_id s) (status s)), d)
         \<and> PATCH rt id_param (Parsed (JObj fs)) (snd (PATCH rt id_param (Parsed (JObj fs)) d)) =
             PATCH rt id_param (Parsed (JObj fs)) d"
proof -
  have "filter (\<lambda>r. s_id r = s_id s) (sessions d) = [s]"
    using assms(1,2) by (simp add: filter_unique_id)
  then have "PATCH rt id_param (Parsed (JObj fs)) d =
           (json_response 200
              (NoChangeBody ''Session already has the requested status'' (s_id s) (status s)), d)"
    using assms(3-6) by (simp add: PATCH_def select_where_id_def)
  then show ?thesis by simp
qed

theorem PATCH_same_status_is_noop_witness:
  "PATCH scenario_runtime ''3'' (Parsed (JObj [(''status'', JStr ''Completed'')])) seed_db =
     (json_response 200 (NoChangeBody ''Session already has the requested status'' 3 Completed),
      seed_db)
   \<and> PATCH scenario_runtime ''3'' (Parsed (JObj [(''status'', JStr ''Completed'')]))
       (snd (PATCH scenario_runtime ''3'' (Parsed (JObj [(''status'', JStr ''Completed'')]))
          seed_db)) =
     PATCH scenario_runtime ''3'' (Parsed (JObj [(''status'', JStr ''Completed'')])) seed_db"
proof -
  let ?s = "\<lparr>s_id = 3, therapist_id = 1, patient_id = 3, date = 1762606800000,
              status = Completed\<rparr>"
  have 1: "?s \<in> set (sessions seed_db)" by (simp add: seed_db_def)
  have 2: "distinct (map s_id (sessions seed_db))" by (simp add: seed_db_def)
  have 3: "0 < s_id ?s" by simp
  have 4: "parseInt ''3'' = Some (s_id ?s)" by (simp add: parseInt_eval)
  have 5: "map_of [(''status'', JStr ''Completed'')] ''status'' = Some (JStr ''Completed'')"
    by simp
  have 6: "enum_status ''Completed'' = Some (status ?s)" by (simp add: enum_status_def)
  show ?thesis
    using PATCH_same_status_is_noop [OF 1 2 3 4 5 6, of scenario_runtime] by simp
qed

text \<open>
  The id check of the handler. The path id is read by \<^verbatim>\<open>parseInt\<close>; when the result
  is \<^verbatim>\<open>NaN\<close> or at most 0 the handler answers 400 with
  \<^verbatim>\<open>Invalid session ID format\<close> whatever the body is (it is not awaited) and the store
  is untouched; in every other case the answer is a different one.
\<close>

lemma PATCH_id_check:
  "if (case parseInt id_param of None \<Rightarrow> True | Some sessionId \<Rightarrow> sessionId \<le> 0)
   then PATCH rt id_param request d =
          (json_response 400 (ErrorBody ''Invalid session ID format''), d)
   else fst (PATCH rt id_param request d) \<noteq>
          json_response 400 (ErrorBody ''Invalid session ID format'')"
  by (auto simp: PATCH_def json_response_def failure_def validation_failed_def update_status_def
      select_where_id_def
      split: option.splits request_body.splits sum.splits list.splits prod.splits if_splits)

text \<open>
  C6. A path id that is no positive integer is to be answered 400 before the body is
  read. The handler reads the id with \<^verbatim>\<open>parseInt\<close>, which stops at the first
  character that is no digit and takes a \<^verbatim>\<open>0x\<close> prefix for hexadecimal, so such ids
  pass the check. On the seed store, with the body \<^verbatim>\<open>{"status": "Completed"}\<close>: the id
  \<^verbatim>\<open>12abc\<close> is looked up as session 12 and answered 404, the id \<^verbatim>\<open>1abc\<close> marks
  session 1 completed and is answered 200, and the id \<^verbatim>\<open>0x3\<close> is answered 200 for
  session 3.
\<close>

theorem PATCH_numeric_prefix_id:
  "PATCH scenario_runtime ''12abc'' mark_completed_request seed_db =
     (json_response 404 (ErrorBody ''Session not found''), seed_db)
   \<and> PATCH scenario_runtime ''1abc'' mark_completed_request seed_db =
     (json_response 200
        (UpdatedBody ''Session updated successfully''
           \<lparr>s_id = 1, therapist_id = 1, patient_id = 1, date = 1762592400000,
             status = Completed\<rparr>),
      seed_db\<lparr>sessions :=
        (sessions seed_db)
          [0 := \<lparr>s_id = 1, therapist_id = 1, patient_id = 1, date = 1762592400000,
                  status = Completed\<rparr>]\<rparr>)
   \<and> PATCH scenario_runtime ''0x3'' mark_completed_request seed_db =
     (json_response 200 (NoChangeBody ''Session already has the requested status'' 3 Completed),
      seed_db)"
  by (simp add: PATCH_def parseInt_eval mark_completed_request_def seed_db_def enum_status_def
      select_where_id_def int4_def update_status_def)

section \<open>Creating a session\<close>

text \<open>
  The existence checks of the handler: a request that passes validation, whose two ids
  fit the integer columns, and whose therapist, or patient, is in no row of its table
  is answered 400 with a message that names the invalid id, and the store is left as it
  was.
\<close>

lemma POST_unknown_reference_in_range:
  assumes "createSessionSchema_parse rt body = Inr validated"
    and "int4 (input_therapist_id validated)" and "int4 (input_patient_id validated)"
    and "input_therapist_id validated \<notin> t_id ` set (therapists d)
         \<or> input_patient_id validated \<notin> p_id ` set (patients d)"
  shows "POST rt (Parsed body) d =
           (json_response 400
              (ErrorBody (if input_therapist_id validated \<notin> t_id ` set (therapists d)
                          then ''Invalid therapist ID'' else ''Invalid patient ID'')), d)"
proof -
  let ?ts = "take 1 (filter (\<lambda>r. t_id r = input_therapist_id validated) (therapists d))"
  let ?ps = "take 1 (filter (\<lambda>r. p_id r = input_patient_id validated) (patients d))"
  have "?ts = [] \<or> ?ps = []"
    using assms(4) unfolding take1_filter_empty .
  from POST_checked [OF assms(1) select_where_id_cases [OF assms(2)]
      select_where_id_cases [OF assms(3)] this]
  show ?thesis unfolding take1_filter_empty .
qed

text \<open>
  C4. A create request whose therapist is in no row of the table is to be answered 400,
  not 500. The schema puts no upper bound on the ids, and the store refuses a number
  that does not fit its 32-bit column: for \<^verbatim>\<open>therapist_id\<close> 2147483648 on the seed
  store the existence query throws and the handler answers 500 through its catch-all
  branch.
\<close>

theorem POST_reference_out_of_range:
  "POST scenario_runtime
     (Parsed (JObj [(''therapist_id'', JNum 2147483648), (''patient_id'', JNum 1),
                    (''date'', JStr ''2030-01-01T10:00:00Z'')])) seed_db =
     (json_response 500 (FailureBody ''Failed to create session'' ''Internal server error''),
      seed_db)"
  by (simp add: POST_def createSessionSchema_issues_def at_key_def isInteger_def
      scenario_runtime_def number_of_def string_of_def select_where_id_def int4_def
      seed_db_def failure_def)

text \<open>
  C5, as the handler has it. For a body that is a JSON object in which at least one of
  \<^verbatim>\<open>therapist_id\<close>, \<^verbatim>\<open>patient_id\<close>, \<^verbatim>\<open>date\<close> is missing or invalid, the answer
  is 400 with \<^verbatim>\<open>Validation failed\<close> and the store is left as it was; the fields named
  by the \<^verbatim>\<open>details\<close> array, read in order without repetitions, are exactly the
  failing fields, all of them and not only the first, and each field has one entry for
  every rule it breaks. A JSON body that is no object is answered 400 with a single
  entry whose field is empty, and a body that is no JSON is answered 500 without
  details.
\<close>

theorem POST_validation_details:
  "(failing_fields rt fs \<noteq> [] \<longrightarrow>
      POST rt (Parsed (JObj fs)) d =
        (json_response 400
           (ValidationBody ''Validation failed''
              (details_of (createSessionSchema_issues rt fs))), d)
      \<and> remdups_adj (map field (details_of (createSessionSchema_issues rt fs))) =
          failing_fields rt fs
      \<and> (\<forall>k. length (filter (\<lambda>e. field e = k)
                   (details_of (createSessionSchema_issues rt fs))) =
               violated_rules rt fs k))
   \<and> ((\<forall>fs. j \<noteq> JObj fs) \<longrightarrow>
      POST rt (Parsed j) d =
        (json_response 400
           (ValidationBody ''Validation failed''
              [\<lparr>field = [], message = ''Expected object, received '' @ received j\<rparr>]), d))
   \<and> POST rt (Malformed thrown) d =
        (json_response 500
           (FailureBody ''Failed to create session''
              (if development rt then thrown else ''Internal server error'')), d)"
proof (intro conjI impI)
  assume failing: "failing_fields rt fs \<noteq> []"
  have "createSessionSchema_issues rt fs \<noteq> []"
    using failing fields_of_issues [of rt fs] by (auto simp: details_of_def)
  then show "POST rt (Parsed (JObj fs)) d =
      (json_response 400
         (ValidationBody ''Validation failed''
            (details_of (createSessionSchema_issues rt fs))), d)"
    by (simp add: POST_def validation_failed_def)
  show "remdups_adj (map field (details_of (createSessionSchema_issues rt fs))) =
      failing_fields rt fs"
    by (rule fields_of_issues)
  show "\<forall>k. length (filter (\<lambda>e. field e = k)
                 (details_of (createSessionSchema_issues rt fs))) =
             violated_rules rt fs k"
    by (rule entries_per_field)
next
  assume "\<forall>fs. j \<noteq> JObj fs"
  then show "POST rt (Parsed j) d =
      (json_response 400
         (ValidationBody ''Validation failed''
            [\<lparr>field = [], message = ''Expected object, received '' @ received j\<rparr>]), d)"
    by (cases j)
      (simp_all add: POST_def validation_failed_def details_of_def not_an_object_def)
next
  show "POST rt (Malformed thrown) d =
      (json_response 500
         (FailureBody ''Failed to create session''
            (if development rt then thrown else ''Internal server error'')), d)"
    by (simp add: POST_def failure_def)
qed

theorem POST_validation_details_witness:
  "POST scenario_runtime (Parsed (JObj [(''therapist_id'', JNum 1)])) seed_db =
     (json_response 400
        (ValidationBody ''Validation failed''
           [\<lparr>field = ''patient_id'', message = ''Required''\<rparr>,
            \<lparr>field = ''date'', message = ''Required''\<rparr>]), seed_db)
   \<and> POST scenario_runtime (Parsed (JArr [])) seed_db =
     (json_response 400
        (ValidationBody ''Validation failed''
           [\<lparr>field = [], message = ''Expected object, received array''\<rparr>]), seed_db)"
proof -
  have 1: "failing_fields scenario_runtime [(''therapist_id'', JNum 1)] \<noteq> []"
    by (simp add: failing_fields_def positive_integer_def valid_timestamp_def)
  have 2: "details_of (createSessionSchema_issues scenario_runtime [(''therapist_id'', JNum 1)])
      = [\<lparr>field = ''patient_id'', message = ''Required''\<rparr>,
         \<lparr>field = ''date'', message = ''Required''\<rparr>]"
    by (simp add: createSessionSchema_issues_def details_of_def at_key_def isInteger_def)
  have 3: "\<forall>fs. JArr [] \<noteq> JObj fs" by simp
  have 4: "''Expected object, received '' @ received (JArr []) =
      ''Expected object, received array''" by simp
  show ?thesis
    using POST_validation_details
        [of scenario_runtime "[(''therapist_id'', JNum 1)]" seed_db "JArr []"] 1 3
    unfolding 2 4 by blast
qed

text \<open>
  The claim as it is worded fails in two ways. A body that is \<^verbatim>\<open>null\<close> has none of
  the three fields, and the details hold one entry that names no field. A
  \<^verbatim>\<open>therapist_id\<close> of -1.5 is one failing field with two entries.
\<close>

theorem POST_details_counterexample:
  "POST scenario_runtime (Parsed JNull) seed_db =
     (json_response 400
        (ValidationBody ''Validation failed''
           [\<lparr>field = [], message = ''Expected object, received null''\<rparr>]), seed_db)
   \<and> POST scenario_runtime
       (Parsed (JObj [(''therapist_id'', JNum (- 3 / 2)), (''patient_id'', JNum 1),
                      (''date'', JStr ''2030-01-01T10:00:00Z'')])) seed_db =
     (json_response 400
        (ValidationBody ''Validation failed''
           [\<lparr>field = ''therapist_id'', message = ''Expected integer, received float''\<rparr>,
            \<lparr>field = ''therapist_id'', message = ''Number must be greater than 0''\<rparr>]),
      seed_db)"
  using integer_example not_integer_example
  by (simp add: POST_def validation_failed_def details_of_def not_an_object_def
      createSessionSchema_issues_def at_key_def scenario_runtime_def)

text \<open>
  The insert of the handler: a request whose three fields are valid, whatever else the
  body holds (a \<^verbatim>\<open>status\<close> of the client's included), whose therapist and patient
  exist, whose date the runtime can read and the store accepts, and for which the
  sequence gives a fresh id, appends one row with status \<^verbatim>\<open>Scheduled\<close> and the id
  taken from the sequence, and is answered 201 with that row joined with the two names.
\<close>

lemma POST_creates_scheduled:
  assumes "failing_fields rt fs = []"
    and "filter (\<lambda>t. t_id t = number_of (map_of fs ''therapist_id'')) (therapists d) = t # ts"
    and "filter (\<lambda>p. p_id p = number_of (map_of fs ''patient_id'')) (patients d) = p # ps"
    and "Date rt (string_of (map_of fs ''date'')) = Some time"
    and "sessions_id_seq d \<notin> s_id ` set (sessions d)"
    and "timestamp_accepted time"
    and "new = \<lparr>s_id = sessions_id_seq d,
                 therapist_id = number_of (map_of fs ''therapist_id''),
                 patient_id = number_of (map_of fs ''patient_id''),
                 date = time, status = Scheduled\<rparr>"
  shows "POST rt (Parsed (JObj fs)) d =
           (json_response 201 (SessionBody (with_details new (Some t) (Some p))),
            d\<lparr>sessions_id_seq := sessions_id_seq d + 1, sessions := sessions d @ [new]\<rparr>)"
proof -
  let ?d' = "d\<lparr>sessions_id_seq := sessions_id_seq d + 1, sessions := sessions d @ [new]\<rparr>"
  have ins: "insert_session (number_of (map_of fs ''therapist_id''))
               (number_of (map_of fs ''patient_id'')) time Scheduled d = (Inr [new], ?d')"
    using assms(5,6,7) by (simp add: insert_session_def Let_def)
  have old: "filter (\<lambda>r. s_id r = s_id new) (concat (map (joined_rows ?d') (sessions d))) = []"
    using assms(5,7) by (auto simp: filter_empty_conv dest!: joined_rows_sid)
  have "joined_rows ?d' new = map (\<lambda>p. with_details new (Some t) p) (map Some (p # ps)) @
      concat (map (\<lambda>t. map (\<lambda>p. with_details new t p) (map Some (p # ps))) (map Some ts))"
  proof -
    have "filter (\<lambda>t. therapist_id new = t_id t) (therapists d) = t # ts"
      unfolding assms(2) [symmetric] by (rule filter_cong) (auto simp: assms(7))
    moreover have "filter (\<lambda>p. patient_id new = p_id p) (patients d) = p # ps"
      unfolding assms(3) [symmetric] by (rule filter_cong) (auto simp: assms(7))
    ultimately show ?thesis
      by (simp add: joined_rows_def leftJoin_def)
  qed
  then have "take 1 (filter (\<lambda>r. s_id r = s_id new) (select_sessions_joined ?d')) =
      [with_details new (Some t) (Some p)]"
    using old by (simp add: select_sessions_joined_def)
  then show ?thesis
    using assms(2,3,4) ins
    by (simp add: POST_def select_where_id_def parse_ok [OF assms(1)]
        del: createSessionSchema_parse.simps)
qed

text \<open>
  C7. Every create request that passes validation and names an existing therapist and
  patient is to be answered 201 with the new row. The datetime check accepts the
  timestamp \<^verbatim>\<open>0000-01-01T00:00:00Z\<close> and \<^verbatim>\<open>new Date\<close> reads it, but the store has no
  year 0: on the seed store the insert throws, nothing is inserted, and the handler
  answers 500 through its catch-all branch.
\<close>

theorem POST_year_zero_date:
  "POST year_zero_runtime
     (Parsed (JObj [(''therapist_id'', JNum 1), (''patient_id'', JNum 1),
                    (''date'', JStr ''0000-01-01T00:00:00Z'')])) seed_db =
     (json_response 500 (FailureBody ''Failed to create session'' ''Internal server error''),
      seed_db)"
  by (simp add: POST_def createSessionSchema_issues_def at_key_def isInteger_def
      year_zero_runtime_def number_of_def string_of_def select_where_id_def int4_def
      seed_db_def failure_def insert_session_def timestamp_accepted_def)

section \<open>Listing the sessions\<close>

text \<open>
  C8, as the handler has it. The list operation answers 200 with the joined rows in
  ascending order of the appointment timestamp: the timestamps never decrease, the rows
  are those of the join and no others, and the sequence of timestamps does not depend on
  the order in which the sessions were inserted. The order is strictly ascending when
  no two rows share a timestamp; the three timestamps of the example come back as
  09:00, 13:00, 11:00 of the next day.
\<close>

theorem GET_ordered_by_date:
  "GET d = json_response 200 (SessionList (listSessionsWithDetails d))
   \<and> sorted (map date (listSessionsWithDetails d))
   \<and> mset (listSessionsWithDetails d) = mset (select_sessions_joined d)
   \<and> (distinct (map date (select_sessions_joined d)) \<longrightarrow>
        sorted_wrt (<) (map date (listSessionsWithDetails d)))
   \<and> (therapists d' = therapists d \<and> patients d' = patients d \<and>
        mset (sessions d') = mset (sessions d) \<longrightarrow>
        map date (listSessionsWithDetails d') = map date (listSessionsWithDetails d))"
proof -
  have 1: "sorted (map date (listSessionsWithDetails d))"
    by (simp add: listSessionsWithDetails_def orderBy_date_def)
  have 2: "mset (listSessionsWithDetails d) = mset (select_sessions_joined d)"
    by (simp add: listSessionsWithDetails_def orderBy_date_def)
  have 3: "sorted_wrt (<) (map date (listSessionsWithDetails d))"
    if "distinct (map date (select_sessions_joined d))"
  proof -
    have "mset (map date (listSessionsWithDetails d)) =
        mset (map date (select_sessions_joined d))"
      using 2 by (metis mset_map)
    then have "distinct (map date (listSessionsWithDetails d))"
      using that by (metis mset_eq_imp_distinct_iff)
    with 1 show ?thesis by (simp add: strict_sorted_iff)
  qed
  have 4: "map date (listSessionsWithDetails d') = map date (listSessionsWithDetails d)"
    if "therapists d' = therapists d" "patients d' = patients d"
      "mset (sessions d') = mset (sessions d)"
  proof -
    have "mset (select_sessions_joined d') = mset (select_sessions_joined d)"
      using mset_concat_map_cong [OF that(3)]
      by (simp add: select_sessions_joined_def joined_rows_cong [OF that(1,2)])
    then show ?thesis
      unfolding listSessionsWithDetails_def orderBy_date_def by (rule sort_key_keys_cong)
  qed
  show ?thesis
    using 1 2 3 4 by (simp add: GET_def)
qed

theorem GET_ordered_by_date_witness:
  "map date (listSessionsWithDetails ordering_db) =
     [1762592400000, 1762606800000, 1762686000000]
   \<and> sorted_wrt (<) (map date (listSessionsWithDetails ordering_db))"
proof -
  have 1: "map date (listSessionsWithDetails ordering_db) =
      [1762592400000, 1762606800000, 1762686000000]"
    by (simp add: list_eval ordering_db_def seed_db_def)
  have 2: "distinct (map date (select_sessions_joined ordering_db))"
    by (simp add: list_eval ordering_db_def seed_db_def)
  show ?thesis
    using GET_ordered_by_date [of ordering_db ordering_db] 1 2 by blast
qed

text \<open>
  The claim as it is worded asks for a strictly ascending order for every store. Two
  sessions of different therapists at the same time are listed with equal timestamps.
\<close>

theorem GET_same_time_counterexample:
  "\<not> sorted_wrt (<) (map date (listSessionsWithDetails same_time_db))"
  by (simp add: list_eval same_time_db_def seed_db_def)




section \<open>The client: marking a session completed\<close>

text \<open>
  C1. A session is marked completed from a render in which it is found with status
  \<^verbatim>\<open>Scheduled\<close>. The captured status then is \<^verbatim>\<open>Scheduled\<close>, and if the request
  fails (the fetch rejects, the HTTP status is no success, or the body is no JSON), then
  in whatever state \<open>c2\<close> the failure settles, every row of that session has status
  \<^verbatim>\<open>Scheduled\<close> afterwards, not \<^verbatim>\<open>Completed\<close>, and no row is added or removed. When
  nothing else happened in between and the rows of the session were scheduled, the
  whole list is back to what it was before the click.
\<close>

theorem mark_completed_rollback:
  assumes "find (\<lambda>s. s_id s = sid) props_sessions = Some session"
    and "status session = Scheduled"
    and "failed outcome"
    and "handleMarkCompleted_begin props_sessions sid c = (originalStatus, c1)"
  shows "originalStatus = Some Scheduled
    \<and> (\<forall>r \<in> set (home_sessions
           (handleMarkCompleted_settle sid originalStatus (apiCall test_env outcome) c2)).
          s_id r = sid \<longrightarrow> status r = Scheduled)
    \<and> map s_id (home_sessions
           (handleMarkCompleted_settle sid originalStatus (apiCall test_env outcome) c2)) =
        map s_id (home_sessions c2)
    \<and> ((\<forall>r \<in> set (home_sessions c). s_id r = sid \<longrightarrow> status r = Scheduled) \<longrightarrow>
         home_sessions
           (handleMarkCompleted_settle sid originalStatus (apiCall test_env outcome) c1) =
         home_sessions c)"
proof -
  have orig: "originalStatus = Some Scheduled"
    using assms(1,2,4) by (auto simp: handleMarkCompleted_begin_def Let_def)
  obtain e where e: "apiCall test_env outcome = Inl e"
    using failed_apiCall [OF assms(3), of test_env] by (cases "apiCall test_env outcome") auto
  let ?revert = "map (\<lambda>session. if s_id session = sid then session\<lparr>status := Scheduled\<rparr>
                          else session)"
  have settle: "home_sessions
      (handleMarkCompleted_settle sid originalStatus (apiCall test_env outcome) c') =
      ?revert (home_sessions c')" for c'
    by (simp add: handleMarkCompleted_settle_def handleSessionUpdateError_def orig e)
  have c1: "home_sessions c1 =
      map (\<lambda>session. if s_id session = sid then session\<lparr>status := Completed\<rparr> else session)
        (home_sessions c)"
    using assms(4) by (auto simp: handleMarkCompleted_begin_def Let_def handleSessionUpdate_def)
  have ids: "map s_id (?revert xs) = map s_id xs" for xs :: "SessionWithDetails list"
    by (induction xs) auto
  have 2: "\<forall>r \<in> set (home_sessions
           (handleMarkCompleted_settle sid originalStatus (apiCall test_env outcome) c2)).
          s_id r = sid \<longrightarrow> status r = Scheduled"
    unfolding settle by (rule reverted_status)
  have 3: "map s_id (home_sessions
           (handleMarkCompleted_settle sid originalStatus (apiCall test_env outcome) c2)) =
        map s_id (home_sessions c2)"
    unfolding settle by (rule ids)
  have 4: "home_sessions
           (handleMarkCompleted_settle sid originalStatus (apiCall test_env outcome) c1) =
         home_sessions c"
    if "\<forall>r \<in> set (home_sessions c). s_id r = sid \<longrightarrow> status r = Scheduled"
    unfolding settle c1 revert_complete using that by (rule revert_same)
  from orig 2 3 show ?thesis
  proof (intro conjI impI)
    assume "\<forall>r \<in> set (home_sessions c). s_id r = sid \<longrightarrow> status r = Scheduled"
    then show "home_sessions
           (handleMarkCompleted_settle sid originalStatus (apiCall test_env outcome) c1) =
         home_sessions c"
      by (rule 4)
  qed
qed

theorem mark_completed_rollback_witness:
  "home_sessions
     (handleMarkCompleted_settle 1
        (fst (handleMarkCompleted_begin (home_sessions seed_client) 1 seed_client))
        (apiCall False (Rejected FailedToFetch))
        (snd (handleMarkCompleted_begin (home_sessions seed_client) 1 seed_client))) =
   home_sessions seed_client
   \<and> home_sessions
     (handleMarkCompleted_settle 1
        (fst (handleMarkCompleted_begin (home_sessions seed_client) 1 seed_client))
        (apiCall False
           (Resolved \<lparr>ok = False, content_type = Some (Some ''application/json''),
                      data = Inr (JObj [(''error'', JStr ''Session not found'')])\<rparr>))
        (snd (handleMarkCompleted_begin (home_sessions seed_client) 1 seed_client))) =
   home_sessions seed_client
   \<and> home_sessions
     (handleMarkCompleted_settle 1
        (fst (handleMarkCompleted_begin (home_sessions seed_client) 1 seed_client))
        (apiCall False
           (Resolved \<lparr>ok = True, content_type = Some (Some ''application/json''),
                      data = Inl ''Unexpected end of JSON input''\<rparr>))
        (snd (handleMarkCompleted_begin (home_sessions seed_client) 1 seed_client))) =
   home_sessions seed_client"
proof -
  let ?row = "\<lparr>s_id = 1, therapist_id = 1, patient_id = 1, date = 1762592400000,
                status = Scheduled, therapist_name = Some ''Anna SLP'',
                patient_name = Some ''Ariel Underwood''\<rparr>"
  let ?begin = "handleMarkCompleted_begin (home_sessions seed_client) 1 seed_client"
  have rows: "home_sessions seed_client =
      [?row,
       \<lparr>s_id = 2, therapist_id = 1, patient_id = 2, date = 1762597800000,
         status = Scheduled, therapist_name = Some ''Anna SLP'',
         patient_name = Some ''Nemo Fisher''\<rparr>,
       \<lparr>s_id = 3, therapist_id = 1, patient_id = 3, date = 1762606800000,
         status = Completed, therapist_name = Some ''Anna SLP'',
         patient_name = Some ''Moana Lee''\<rparr>,
       \<lparr>s_id = 4, therapist_id = 2, patient_id = 4, date = 1762686000000,
         status = Scheduled, therapist_name = Some ''Becca OT'',
         patient_name = Some ''Elsa Frost''\<rparr>,
       \<lparr>s_id = 5, therapist_id = 3, patient_id = 2, date = 1762702200000,
         status = Scheduled, therapist_name = Some ''Carlos PT'',
         patient_name = Some ''Nemo Fisher''\<rparr>]"
    by (simp add: seed_client_def list_eval seed_db_def)
  have 1: "find (\<lambda>s. s_id s = 1) (home_sessions seed_client) = Some ?row"
    unfolding rows by simp
  have 2: "status ?row = Scheduled" by simp
  have 3: "?begin = (fst ?begin, snd ?begin)" by simp
  have 4: "\<forall>r \<in> set (home_sessions seed_client). s_id r = 1 \<longrightarrow> status r = Scheduled"
    unfolding rows by simp
  have f1: "failed (Rejected FailedToFetch)"
    and f2: "failed (Resolved \<lparr>ok = False, content_type = Some (Some ''application/json''),
                      data = Inr (JObj [(''error'', JStr ''Session not found'')])\<rparr>)"
    and f3: "failed (Resolved \<lparr>ok = True, content_type = Some (Some ''application/json''),
                      data = Inl ''Unexpected end of JSON input''\<rparr>)"
    by (simp_all add: failed_def)
  show ?thesis
    using mark_completed_rollback [OF 1 2 f1 3, of False] mark_completed_rollback [OF 1 2 f2 3, of False]
      mark_completed_rollback [OF 1 2 f3 3, of False] 4
    by blast
qed

text \<open>
  What an update for session \<open>a\<close> does to the rest of the table. Triggering it and
  its settling, with success or failure, leave every row of another session \<open>b\<close> as it
  was. The pending state is the one slot \<open>updatingSessionId\<close>: triggering an update
  for \<open>a\<close> puts \<open>a\<close> in the slot, whatever it held, and the settling of an update
  empties it.
\<close>

lemma mark_completed_row_isolation:
  assumes "b \<noteq> a"
  shows "filter (\<lambda>r. s_id r = b) (home_sessions (snd (handleMarkCompleted_begin props_sessions a c))) =
         filter (\<lambda>r. s_id r = b) (home_sessions c)
    \<and> filter (\<lambda>r. s_id r = b) (home_sessions (handleMarkCompleted_settle a originalStatus result c)) =
         filter (\<lambda>r. s_id r = b) (home_sessions c)
    \<and> updatingSessionId (snd (handleMarkCompleted_begin props_sessions a c)) = Some a
    \<and> updatingSessionId (handleMarkCompleted_settle a originalStatus result c) = None"
proof -
  have "filter (\<lambda>r. s_id r = b)
      (map (\<lambda>session. if s_id session = a then session\<lparr>status := st\<rparr> else session) xs) =
      filter (\<lambda>r. s_id r = b) xs" for st and xs :: "SessionWithDetails list"
    using assms by (induction xs) auto
  then show ?thesis
    by (auto simp: handleMarkCompleted_begin_def handleMarkCompleted_settle_def Let_def
        handleSessionUpdate_def handleSessionUpdateError_def split: sum.splits option.splits)
qed


section \<open>The client: loading the list\<close>

text \<open>
  C10. When the list fetch resolves with a success status and a JSON body that is not an
  array, the session list in memory stays as it was, \<^verbatim>\<open>error\<close> is set to
  \<^verbatim>\<open>Invalid response format\<close>, \<^verbatim>\<open>loading\<close> is cleared, and the dashboard renders the
  error panel (which carries the retry button) in place of the table.
\<close>

theorem fetchSessions_non_array:
  assumes "ok res" and "data res = Inr d" and "\<forall>rows. d \<noteq> DataArray rows"
  shows "home_sessions (fetchSessions_settle (Resolved res) c) = home_sessions c
    \<and> error (fetchSessions_settle (Resolved res) c) = Some ''Invalid response format''
    \<and> loading (fetchSessions_settle (Resolved res) c) = False
    \<and> render (fetchSessions_settle (Resolved res) c) = ErrorPanel ''Invalid response format''"
  using assms by (cases d) (simp_all add: fetchSessions_settle_def render_def)

theorem fetchSessions_non_array_witness:
  "home_sessions
     (fetchSessions_settle
        (Resolved \<lparr>ok = True, content_type = Some (Some ''application/json''),
                   data = Inr DataNull\<rparr>) (fetchSessions_begin seed_client)) =
   home_sessions (fetchSessions_begin seed_client)
   \<and> render
     (fetchSessions_settle
        (Resolved \<lparr>ok = True, content_type = Some (Some ''application/json''),
                   data = Inr DataNull\<rparr>) (fetchSessions_begin seed_client)) =
   ErrorPanel ''Invalid response format''"
proof -
  let ?res = "\<lparr>ok = True, content_type = Some (Some ''application/json''),
               data = Inr DataNull\<rparr> :: response_data fetch_response"
  have 1: "ok ?res" and 2: "data ?res = Inr DataNull" by simp_all
  have 3: "\<forall>rows. DataNull \<noteq> DataArray rows" by simp
  from fetchSessions_non_array [OF 1 2 3, of "fetchSessions_begin seed_client"]
  show ?thesis by blast
qed

end
